theory Spec2Isabelle
  imports Complex_Main
begin

section \<open>The valuation calculator of valuation.py\<close>

text \<open>
  The script reads numbers from input widgets and, when the button of the selected model
  is pressed, evaluates one closed formula. Each of the five button bodies is embedded as
  one function from the widget values to the outcome of the run.

  The widget values are Python floats. They are modelled as exact reals: rounding,
  overflow and underflow of the floating-point operations are outside this model, and the
  float constants \<open>1.1\<close>, \<open>0.9\<close> and \<open>0.7\<close> stand for the decimal fractions they are
  written as. The operator \<open>/\<close> on floats raises \<open>ZeroDivisionError\<close> on a zero divisor,
  which the model keeps; \<open>**\<close> with a natural exponent is total.
\<close>

subsection \<open>Outcomes\<close>

text \<open>
  A run of a button body ends in one of three ways: the script shows a message with
  \<open>st.error\<close> and shows no value (\<open>St_error\<close> with the message), a division raises an
  exception that nothing in the script catches (\<open>ZeroDivisionError\<close>), or the values are
  computed and shown (\<open>Inr\<close>).
\<close>

datatype failure = St_error string | ZeroDivisionError

definition truediv :: "real \<Rightarrow> real \<Rightarrow> failure + real" where
  "truediv a b = (if b = 0 then Inl ZeroDivisionError else Inr (a / b))"

definition then_do :: "failure + 'a \<Rightarrow> ('a \<Rightarrow> failure + 'b) \<Rightarrow> failure + 'b" where
  "then_do m f = (case m of Inl e \<Rightarrow> Inl e | Inr v \<Rightarrow> f v)"

text \<open>A list comprehension whose elements may raise: the first exception ends it.\<close>

primrec sequence :: "(failure + 'a) list \<Rightarrow> failure + 'a list" where
  "sequence [] = Inr []"
| "sequence (m # ms) = then_do m (\<lambda>v. then_do (sequence ms) (\<lambda>vs. Inr (v # vs)))"

subsection \<open>Discounted cash flow\<close>

text \<open>The thirteen widgets of the DCF form, under the names of the script's variables.\<close>

record dcf_inputs =
  opc :: real
  opc1 :: real
  opc2 :: real
  ope :: real
  ope1 :: real
  ope2 :: real
  gr :: real
  gr1 :: real
  tr :: real
  dr :: real
  dv :: real
  cb :: real
  os :: real

record dcf_result =
  shareprice :: real
  uppershareprice :: real
  lowershareprice :: real
  marginofsafetyprice :: real

definition free_cash_flows :: "dcf_inputs \<Rightarrow> real list" where
  "free_cash_flows x = [opc x - ope x, opc1 x - ope1 x, opc2 x - ope2 x]"

text \<open>The divisor is the length of a three-element list literal, never zero.\<close>

definition cashflow :: "dcf_inputs \<Rightarrow> real" where
  "cashflow x = sum_list (free_cash_flows x) / real (length (free_cash_flows x))"

definition grp :: "dcf_inputs \<Rightarrow> real" where
  "grp x = gr x / 100"

definition grp1 :: "dcf_inputs \<Rightarrow> real" where
  "grp1 x = gr1 x / 100"

definition trp :: "dcf_inputs \<Rightarrow> real" where
  "trp x = tr x / 100"

definition drp :: "dcf_inputs \<Rightarrow> real" where
  "drp x = dr x / 100"

text \<open>\<open>FV\<close> is built over \<open>range(10)\<close>: the index \<open>i\<close> runs from 0 to 9.\<close>

definition FV :: "dcf_inputs \<Rightarrow> real list" where
  "FV x = map (\<lambda>i. if i < 5 then cashflow x * (1 + grp x) ^ i
                     else cashflow x * (1 + grp x) ^ 5 * (1 + grp1 x) ^ (i - 5)) [0..<10]"

definition PV :: "dcf_inputs \<Rightarrow> failure + real list" where
  "PV x = sequence (map (\<lambda>i. truediv (FV x ! i) ((1 + drp x) ^ (i + 1))) [0..<10])"

text \<open>\<open>FV[-1]\<close> is the last of the ten elements.\<close>

definition terminalvalue :: "dcf_inputs \<Rightarrow> failure + real" where
  "terminalvalue x = truediv (last (FV x) * (1 + trp x)) (drp x - trp x)"

definition pvtv :: "dcf_inputs \<Rightarrow> failure + real" where
  "pvtv x = then_do (terminalvalue x) (\<lambda>tv. truediv tv ((1 + drp x) ^ 10))"

definition sumofpresentvalues :: "dcf_inputs \<Rightarrow> failure + real" where
  "sumofpresentvalues x =
     then_do (PV x) (\<lambda>pv. then_do (pvtv x) (\<lambda>t. Inr (sum_list pv + t)))"

definition netdebt :: "dcf_inputs \<Rightarrow> real" where
  "netdebt x = dv x - cb x"

definition totalpresentvalue :: "dcf_inputs \<Rightarrow> failure + real" where
  "totalpresentvalue x = then_do (sumofpresentvalues x) (\<lambda>s. Inr (s - netdebt x))"

definition dcf_prices :: "real \<Rightarrow> dcf_result" where
  "dcf_prices p =
     \<lparr>shareprice = p, uppershareprice = p * 1.1, lowershareprice = p * 0.9,
      marginofsafetyprice = (p * 0.9) * 0.7\<rparr>"

text \<open>
  The body of the DCF button. Each of the two checks shows its message and stops the
  script (\<open>st.stop()\<close>), so the second check is reached only when the first one passes.
\<close>

definition dcf :: "dcf_inputs \<Rightarrow> failure + dcf_result" where
  "dcf x =
     (if os x \<le> 0 then Inl (St_error ''Outstanding Shares must be greater than 0.'')
      else if dr x \<le> tr x
        then Inl (St_error ''Discount Rate must be greater than Terminal Growth Rate.'')
      else then_do (totalpresentvalue x) (\<lambda>t.
           then_do (truediv t (os x)) (\<lambda>p. Inr (dcf_prices p))))"

subsection \<open>Dividend discount model\<close>

definition ddm :: "real \<Rightarrow> real \<Rightarrow> real \<Rightarrow> failure + real" where
  "ddm D1 g r =
     (if r \<le> g then Inl (St_error ''Return must be greater than growth rate'')
      else truediv D1 ((r - g) / 100))"

subsection \<open>Residual income model\<close>

record rim_result =
  cost_of_equity :: real
  intrinsic_value :: real

definition rim :: "real \<Rightarrow> real \<Rightarrow> real \<Rightarrow> real \<Rightarrow> real \<Rightarrow> failure + rim_result" where
  "rim book_value net_income rf beta market_return =
     (let coe = rf + beta * (market_return - rf);
          equity_charge = book_value * (coe / 100);
          RI = net_income - equity_charge
      in then_do (truediv RI (coe / 100)) (\<lambda>q.
           Inr \<lparr>cost_of_equity = coe, intrinsic_value = book_value + q\<rparr>))"

subsection \<open>Relative valuation\<close>

definition relative_value :: "real \<Rightarrow> real \<Rightarrow> failure + real" where
  "relative_value industry_pe eps = Inr (industry_pe * eps)"

subsection \<open>Asset-based valuation\<close>

definition nav :: "real \<Rightarrow> real \<Rightarrow> real \<Rightarrow> failure + real" where
  "nav total_assets total_liabilities shares_outstanding =
     truediv (total_assets - total_liabilities) shares_outstanding"

subsection \<open>Inputs used for evaluation\<close>

text \<open>
  The DCF scenario of the specification: three years of operating cash 100 and capital
  expenditure 20, growth 10 and 5 per cent, terminal growth 3, discount rate 10, debt 50,
  cash 20, ten shares.
\<close>

definition scenario_inputs :: dcf_inputs where
  "scenario_inputs =
     \<lparr>opc = 100, opc1 = 100, opc2 = 100, ope = 20, ope1 = 20, ope2 = 20,
      gr = 10, gr1 = 5, tr = 3, dr = 10, dv = 50, cb = 20, os = 10\<rparr>"

text \<open>The same company with no growth and a discount rate of 100 per cent.\<close>

definition flat_inputs :: dcf_inputs where
  "flat_inputs =
     \<lparr>opc = 100, opc1 = 100, opc2 = 100, ope = 20, ope1 = 20, ope2 = 20,
      gr = 0, gr1 = 0, tr = 0, dr = 100, dv = 50, cb = 20, os = 10\<rparr>"

text \<open>The values the DCF widgets start with: every field 0.0, one share.\<close>

definition default_inputs :: dcf_inputs where
  "default_inputs =
     \<lparr>opc = 0, opc1 = 0, opc2 = 0, ope = 0, ope1 = 0, ope2 = 0,
      gr = 0, gr1 = 0, tr = 0, dr = 0, dv = 0, cb = 0, os = 1\<rparr>"

text \<open>The default values with the shares set to zero.\<close>

definition no_shares_inputs :: dcf_inputs where
  "no_shares_inputs =
     \<lparr>opc = 0, opc1 = 0, opc2 = 0, ope = 0, ope1 = 0, ope2 = 0,
      gr = 0, gr1 = 0, tr = 0, dr = 0, dv = 0, cb = 0, os = 0\<rparr>"

text \<open>
  A discount rate of minus 100 per cent above a terminal growth rate of minus 200 per
  cent: both checks pass and \<open>1 + drp\<close> is zero.
\<close>

definition total_discount_inputs :: dcf_inputs where
  "total_discount_inputs =
     \<lparr>opc = 100, opc1 = 100, opc2 = 100, ope = 20, ope1 = 20, ope2 = 20,
      gr = 10, gr1 = 5, tr = - 200, dr = - 100, dv = 50, cb = 20, os = 10\<rparr>"

section \<open>Properties\<close>

subsection \<open>Divisions and sequences\<close>

lemma truediv_nonzero: "b \<noteq> 0 \<Longrightarrow> truediv a b = Inr (a / b)"
  by (simp add: truediv_def)

lemma truediv_zero: "truediv a 0 = Inl ZeroDivisionError"
  by (simp add: truediv_def)

lemma then_do_Inr: "then_do (Inr v) f = f v"
  by (simp add: then_do_def)

lemma then_do_Inl: "then_do (Inl e) f = Inl e"
  by (simp add: then_do_def)

lemma sequence_map_Inr: "sequence (map (\<lambda>i. Inr (f i)) xs) = Inr (map f xs)"
  by (induction xs) (simp_all add: then_do_Inr)

subsection \<open>The projected and the discounted cash flows\<close>

lemma FV_length: "length (FV x) = 10"
  by (simp add: FV_def)

text \<open>The element at index \<open>i\<close> is the cash flow of year \<open>i + 1\<close>.\<close>

lemma FV_nth:
  "i < 10 \<Longrightarrow> FV x ! i =
     (if i < 5 then cashflow x * (1 + grp x) ^ i
      else cashflow x * (1 + grp x) ^ 5 * (1 + grp1 x) ^ (i - 5))"
  unfolding FV_def by (simp only: nth_map_upt) simp

text \<open>
  The schedule by year: the near-term rate is compounded \<open>k - 1\<close> times in year \<open>k\<close> up
  to year 5 and five times from year 6 on, the long-term rate \<open>k - 6\<close> times.
\<close>

lemma FV_year:
  assumes "1 \<le> k" and "k \<le> 10"
  shows "FV x ! (k - 1) =
     (if k \<le> 5 then cashflow x * (1 + grp x) ^ (k - 1)
      else cashflow x * (1 + grp x) ^ 5 * (1 + grp1 x) ^ (k - 6))"
proof -
  have "k - 1 < 10" using assms by simp
  from FV_nth [OF this] show ?thesis
    using assms by (auto simp: less_Suc_eq_le)
qed

lemma FV_last: "last (FV x) = FV x ! 9"
proof -
  have "FV x \<noteq> []" using FV_length [of x] by auto
  then show ?thesis by (simp add: last_conv_nth FV_length)
qed

lemma PV_ok:
  assumes "drp x \<noteq> - 1"
  shows "PV x = Inr (map (\<lambda>i. FV x ! i / (1 + drp x) ^ (i + 1)) [0..<10])"
proof -
  have nz: "(1 + drp x) ^ n \<noteq> 0" for n
    using assms by (simp add: add_eq_0_iff)
  have "map (\<lambda>i. truediv (FV x ! i) ((1 + drp x) ^ (i + 1))) [0..<10] =
        map (\<lambda>i. Inr (FV x ! i / (1 + drp x) ^ (i + 1))) [0..<10]"
    by (rule map_cong) (simp_all only: truediv_nonzero [OF nz])
  then show ?thesis
    unfolding PV_def by (simp only: sequence_map_Inr)
qed

lemma PV_zero_base: "drp x = - 1 \<Longrightarrow> PV x = Inl ZeroDivisionError"
  by (simp add: PV_def upt_rec truediv_def then_do_def)

lemma sum_list_years:
  "sum_list (map (\<lambda>i. f (i + 1)) [0..<10]) = (\<Sum>i = 1..10. (f i :: real))"
proof -
  have "sum_list (map (\<lambda>i. f (i + 1)) [0..<10]) = (\<Sum>i = 0..<10. f (i + 1))"
    by (simp only: interv_sum_list_conv_sum_set_nat set_upt)
  also have "\<dots> = (\<Sum>i = 1..<11. f i)"
    using sum.shift_bounds_nat_ivl [of f 0 1 10] by simp
  also have "{1..<11::nat} = {1..10}" by auto
  finally show ?thesis .
qed

lemma sum_years_unfold:
  fixes f :: "nat \<Rightarrow> real"
  shows "(\<Sum>i = 1..10. f i) =
     f 1 + f 2 + f 3 + f 4 + f 5 + f 6 + f 7 + f 8 + f 9 + f 10"
  unfolding sum_list_years [symmetric] by (simp add: upt_rec eval_nat_numeral)

subsection \<open>The DCF button\<close>

lemma dcf_ok:
  assumes "0 < os x" and "tr x < dr x" and "dr x \<noteq> - 100"
  shows "dcf x = Inr (dcf_prices
           (((\<Sum>i = 1..10. FV x ! (i - 1) / (1 + drp x) ^ i)
             + FV x ! 9 * (1 + trp x) / (drp x - trp x) / (1 + drp x) ^ 10
             - (dv x - cb x)) / os x))"
proof -
  have d1: "drp x \<noteq> - 1" using assms(3) by (simp add: drp_def)
  have d2: "drp x - trp x \<noteq> 0" using assms(2) by (simp add: drp_def trp_def)
  have d3: "(1 + drp x) ^ 10 \<noteq> 0" using d1 by (simp add: add_eq_0_iff)
  have d4: "os x \<noteq> 0" using assms(1) by simp
  have tv: "terminalvalue x = Inr (FV x ! 9 * (1 + trp x) / (drp x - trp x))"
    by (simp only: terminalvalue_def FV_last truediv_nonzero [OF d2])
  have pt: "pvtv x = Inr (FV x ! 9 * (1 + trp x) / (drp x - trp x) / (1 + drp x) ^ 10)"
    by (simp only: pvtv_def tv then_do_Inr truediv_nonzero [OF d3])
  have sl: "sum_list (map (\<lambda>i. FV x ! i / (1 + drp x) ^ (i + 1)) [0..<10]) =
            (\<Sum>i = 1..10. FV x ! (i - 1) / (1 + drp x) ^ i)"
    using sum_list_years [of "\<lambda>i. FV x ! (i - 1) / (1 + drp x) ^ i"] by simp
  have sp: "sumofpresentvalues x =
              Inr ((\<Sum>i = 1..10. FV x ! (i - 1) / (1 + drp x) ^ i)
                   + FV x ! 9 * (1 + trp x) / (drp x - trp x) / (1 + drp x) ^ 10)"
    by (simp only: sumofpresentvalues_def PV_ok [OF d1] pt then_do_Inr sl)
  have tp: "totalpresentvalue x =
              Inr ((\<Sum>i = 1..10. FV x ! (i - 1) / (1 + drp x) ^ i)
                   + FV x ! 9 * (1 + trp x) / (drp x - trp x) / (1 + drp x) ^ 10
                   - (dv x - cb x))"
    by (simp only: totalpresentvalue_def sp then_do_Inr netdebt_def)
  show ?thesis
    using assms(1,2)
    by (simp only: dcf_def tp then_do_Inr truediv_nonzero [OF d4]) simp
qed

lemma dcf_total_discount:
  "0 < os x \<Longrightarrow> tr x < dr x \<Longrightarrow> dr x = - 100 \<Longrightarrow> dcf x = Inl ZeroDivisionError"
  by (simp add: dcf_def totalpresentvalue_def sumofpresentvalues_def PV_zero_base drp_def
      then_do_Inl)

lemma dcf_result_shape: "dcf x = Inr res \<Longrightarrow> \<exists>p. res = dcf_prices p"
  by (auto simp: dcf_def then_do_def split: if_splits sum.splits)

lemma scenario_FV:
  "FV scenario_inputs =
     [80, 88, 484 / 5, 2662 / 25, 14641 / 125, 161051 / 1250, 3382071 / 25000,
      71023491 / 500000, 1491493311 / 10000000, 31321359531 / 200000000]"
  by (simp add: FV_def cashflow_def free_cash_flows_def grp_def grp1_def scenario_inputs_def
      upt_rec power_divide)

lemma rim_ok:
  assumes "c = rf + beta * (market_return - rf)" and "c \<noteq> 0"
  shows "rim book_value net_income rf beta market_return =
           Inr \<lparr>cost_of_equity = c,
                intrinsic_value = book_value + (net_income - book_value * (c / 100)) / (c / 100)\<rparr>"
  using assms by (simp add: rim_def Let_def truediv_def then_do_def)

lemma rim_zero_cost:
  "rf + beta * (market_return - rf) = 0 \<Longrightarrow>
     rim book_value net_income rf beta market_return = Inl ZeroDivisionError"
  by (simp add: rim_def Let_def truediv_def then_do_def)

section \<open>The claims\<close>

subsection \<open>Discounted cash flow\<close>

text \<open>
  Claim C1 (the code departs from it). The claim: the cash flow of year \<open>i\<close> is
  \<open>base * (1 + nearTerm) ^ i\<close> for \<open>i\<close> from 1 to 5 and
  \<open>base * (1 + nearTerm) ^ 5 * (1 + longTerm) ^ (i - 5)\<close> for \<open>i\<close> from 6 to 10.
  The script uses the list index, which starts at 0, as the exponent, while it discounts
  the same element over \<open>i + 1\<close> periods: the cash flow of year 1 is the base itself and
  that of year 10 carries the long-term rate four times. On the scenario of the
  specification (base 80, rates 10 and 5 per cent) year 1 is 80, not 88, and year 10 is
  \<open>80 * 1.1 ^ 5 * 1.05 ^ 4\<close>, not \<open>80 * 1.1 ^ 5 * 1.05 ^ 5\<close>.
\<close>

theorem FV_scenario_years_1_and_10:
  "cashflow scenario_inputs = 80
   \<and> grp scenario_inputs = 1 / 10
   \<and> grp1 scenario_inputs = 1 / 20
   \<and> FV scenario_inputs ! 0 = 80
   \<and> FV scenario_inputs ! 0 \<noteq> cashflow scenario_inputs * (1 + grp scenario_inputs) ^ 1
   \<and> FV scenario_inputs ! 9 =
       cashflow scenario_inputs * (1 + grp scenario_inputs) ^ 5 * (1 + grp1 scenario_inputs) ^ 4
   \<and> FV scenario_inputs ! 9 \<noteq>
       cashflow scenario_inputs * (1 + grp scenario_inputs) ^ 5 * (1 + grp1 scenario_inputs) ^ 5"
proof -
  have c: "cashflow scenario_inputs = 80"
    by (simp add: cashflow_def free_cash_flows_def scenario_inputs_def)
  have g: "grp scenario_inputs = 1 / 10"
    by (simp add: grp_def scenario_inputs_def)
  have g1: "grp1 scenario_inputs = 1 / 20"
    by (simp add: grp1_def scenario_inputs_def)
  have y1: "FV scenario_inputs ! 0 = 80"
    by (simp add: FV_nth c)
  have y10: "FV scenario_inputs ! 9 =
      cashflow scenario_inputs * (1 + grp scenario_inputs) ^ 5 * (1 + grp1 scenario_inputs) ^ 4"
    by (simp add: FV_nth)
  have n1: "FV scenario_inputs ! 0 \<noteq> cashflow scenario_inputs * (1 + grp scenario_inputs) ^ 1"
    by (simp add: y1 c g)
  have n10: "FV scenario_inputs ! 9 \<noteq>
      cashflow scenario_inputs * (1 + grp scenario_inputs) ^ 5 * (1 + grp1 scenario_inputs) ^ 5"
    by (simp add: y10 c g g1)
  show ?thesis
    using c g g1 y1 y10 n1 n10 by blast
qed

text \<open>
  Claim C2, as amended: for every DCF input that passes both checks and whose discount
  rate is not minus 100 per cent, the share price is the sum over \<open>i\<close> from 1 to 10 of the
  \<open>i\<close>-th element of \<open>FV\<close> divided by \<open>(1 + dr / 100) ^ i\<close>, plus the terminal value
  \<open>FV\<^sub>1\<^sub>0 * (1 + tr / 100) / (dr / 100 - tr / 100)\<close> divided by \<open>(1 + dr / 100) ^ 10\<close>,
  minus the net debt \<open>dv - cb\<close>, all divided by the outstanding shares.
\<close>

theorem dcf_shareprice:
  assumes "0 < os x" and "tr x < dr x" and "dr x \<noteq> - 100"
  shows "\<exists>res. dcf x = Inr res \<and>
           shareprice res =
             ((\<Sum>i = 1..10. FV x ! (i - 1) / (1 + dr x / 100) ^ i)
              + (FV x ! 9 * (1 + tr x / 100) / (dr x / 100 - tr x / 100)) / (1 + dr x / 100) ^ 10
              - (dv x - cb x)) / os x"
  using dcf_ok [OF assms] by (simp add: dcf_prices_def drp_def trp_def)

theorem dcf_shareprice_witness:
  "0 < os scenario_inputs \<and> tr scenario_inputs < dr scenario_inputs
   \<and> dr scenario_inputs \<noteq> - 100
   \<and> (\<exists>res. dcf scenario_inputs = Inr res \<and> shareprice res = 2275377 / 14641)"
proof -
  have h1: "0 < os scenario_inputs" by (simp add: scenario_inputs_def)
  have h2: "tr scenario_inputs < dr scenario_inputs" by (simp add: scenario_inputs_def)
  have h3: "dr scenario_inputs \<noteq> - 100" by (simp add: scenario_inputs_def)
  have v: "((\<Sum>i = 1..10. FV scenario_inputs ! (i - 1) / (1 + dr scenario_inputs / 100) ^ i)
              + (FV scenario_inputs ! 9 * (1 + tr scenario_inputs / 100)
                  / (dr scenario_inputs / 100 - tr scenario_inputs / 100))
                / (1 + dr scenario_inputs / 100) ^ 10
              - (dv scenario_inputs - cb scenario_inputs)) / os scenario_inputs
           = 2275377 / 14641"
    unfolding sum_years_unfold scenario_FV
    by (simp add: scenario_inputs_def power_divide)
  from dcf_shareprice [OF h1 h2 h3] obtain res
    where r: "dcf scenario_inputs = Inr res"
      and s: "shareprice res =
          ((\<Sum>i = 1..10. FV scenario_inputs ! (i - 1) / (1 + dr scenario_inputs / 100) ^ i)
              + (FV scenario_inputs ! 9 * (1 + tr scenario_inputs / 100)
                  / (dr scenario_inputs / 100 - tr scenario_inputs / 100))
                / (1 + dr scenario_inputs / 100) ^ 10
              - (dv scenario_inputs - cb scenario_inputs)) / os scenario_inputs"
    by blast
  from s v have "shareprice res = 2275377 / 14641" by (rule trans)
  with r h1 h2 h3 show ?thesis by blast
qed

text \<open>
  Claim C2 as stated fails where the discount rate is minus 100 per cent: both checks
  pass, \<open>1 + drp\<close> is zero, and the first division of the discounting raises
  \<open>ZeroDivisionError\<close>, so no share price is produced.
\<close>

theorem dcf_shareprice_counterexample:
  "0 < os total_discount_inputs \<and> tr total_discount_inputs < dr total_discount_inputs
   \<and> dcf total_discount_inputs = Inl ZeroDivisionError"
proof -
  have h1: "0 < os total_discount_inputs" by (simp add: total_discount_inputs_def)
  have h2: "tr total_discount_inputs < dr total_discount_inputs"
    by (simp add: total_discount_inputs_def)
  have h3: "dr total_discount_inputs = - 100" by (simp add: total_discount_inputs_def)
  show ?thesis using h1 h2 dcf_total_discount [OF h1 h2 h3] by simp
qed

text \<open>
  Claim C5, as amended: for every DCF input, if the outstanding shares are at most 0 the
  run ends with the message that the shares must be greater than 0 (the failure the
  specification calls InvalidShares); if the shares are positive and the discount rate is
  at most the terminal growth rate it ends with the message that the discount rate must
  be greater than the terminal growth rate (InvalidRateRelation); in both cases no price
  is produced.
\<close>

theorem dcf_validation:
  "(os x \<le> 0 \<longrightarrow>
      dcf x = Inl (St_error ''Outstanding Shares must be greater than 0.''))
   \<and> (0 < os x \<and> dr x \<le> tr x \<longrightarrow>
      dcf x = Inl (St_error ''Discount Rate must be greater than Terminal Growth Rate.''))
   \<and> (os x \<le> 0 \<or> dr x \<le> tr x \<longrightarrow> (\<forall>res. dcf x \<noteq> Inr res))"
  by (simp add: dcf_def)

theorem dcf_validation_witness:
  "os no_shares_inputs \<le> 0
   \<and> dcf no_shares_inputs = Inl (St_error ''Outstanding Shares must be greater than 0.'')
   \<and> 0 < os default_inputs \<and> dr default_inputs \<le> tr default_inputs
   \<and> dcf default_inputs =
       Inl (St_error ''Discount Rate must be greater than Terminal Growth Rate.'')"
proof -
  have a: "os no_shares_inputs \<le> 0" by (simp add: no_shares_inputs_def)
  have b: "0 < os default_inputs \<and> dr default_inputs \<le> tr default_inputs"
    by (simp add: default_inputs_def)
  show ?thesis
    using a b dcf_validation [of no_shares_inputs] dcf_validation [of default_inputs]
    by simp
qed

text \<open>
  Claim C5 as stated fails where both checks would fail: the shares are checked first and
  the script stops there, so a discount rate that is not above the terminal growth rate
  is reported as a shares failure, not as a rate failure.
\<close>

theorem dcf_validation_counterexample:
  "dr no_shares_inputs \<le> tr no_shares_inputs
   \<and> dcf no_shares_inputs = Inl (St_error ''Outstanding Shares must be greater than 0.'')
   \<and> dcf no_shares_inputs \<noteq>
       Inl (St_error ''Discount Rate must be greater than Terminal Growth Rate.'')"
  by (simp add: dcf_def no_shares_inputs_def)

text \<open>
  Claim C6: for every successful DCF result the upper bound is the price times 1.10, the
  lower bound the price times 0.90 and the margin-of-safety price the lower bound times
  0.70; whenever the price is positive, upper > price > lower > margin of safety.
\<close>

theorem dcf_bounds:
  assumes "dcf x = Inr res"
  shows "uppershareprice res = shareprice res * 1.1
         \<and> lowershareprice res = shareprice res * 0.9
         \<and> marginofsafetyprice res = lowershareprice res * 0.7
         \<and> (0 < shareprice res \<longrightarrow>
              shareprice res < uppershareprice res
              \<and> lowershareprice res < shareprice res
              \<and> marginofsafetyprice res < lowershareprice res)"
proof -
  from dcf_result_shape [OF assms] obtain p where "res = dcf_prices p" ..
  then show ?thesis by (simp add: dcf_prices_def)
qed

theorem dcf_bounds_witness:
  "dcf flat_inputs =
     Inr \<lparr>shareprice = 5, uppershareprice = 5.5, lowershareprice = 4.5,
          marginofsafetyprice = 3.15\<rparr>
   \<and> (3.15 :: real) < 4.5 \<and> (4.5 :: real) < 5 \<and> (5 :: real) < 5.5"
proof -
  have e: "dcf flat_inputs =
     Inr \<lparr>shareprice = 5, uppershareprice = 5.5, lowershareprice = 4.5,
          marginofsafetyprice = 3.15\<rparr>"
    by (simp add: dcf_def totalpresentvalue_def sumofpresentvalues_def PV_def pvtv_def
        terminalvalue_def FV_def cashflow_def free_cash_flows_def netdebt_def dcf_prices_def
        grp_def grp1_def trp_def drp_def truediv_def then_do_def flat_inputs_def upt_rec)
  from dcf_bounds [OF e] e show ?thesis by simp
qed

subsection \<open>Dividend discount model\<close>

text \<open>
  Claim C7: for every DDM input with required return above the growth rate the result is
  the next dividend divided by \<open>(requiredReturn - growthRate) / 100\<close>, and it is strictly
  positive whenever the dividend is; for every DDM input with required return at most the
  growth rate the run ends with the message that the return must be greater than the
  growth rate (the failure the specification calls InvalidRateRelation) and no value.
\<close>

theorem ddm_gordon:
  "(g < r \<longrightarrow>
      ddm D1 g r = Inr (D1 / ((r - g) / 100))
      \<and> (0 < D1 \<longrightarrow> 0 < D1 / ((r - g) / 100)))
   \<and> (r \<le> g \<longrightarrow>
      ddm D1 g r = Inl (St_error ''Return must be greater than growth rate''))"
  by (simp add: ddm_def truediv_def)

theorem ddm_gordon_witness:
  "(4 :: real) < 9 \<and> ddm 5 4 9 = Inr 100 \<and> (0 :: real) < 5 \<and> (0 :: real) < 100
   \<and> (0 :: real) \<le> 0
   \<and> ddm 0 0 0 = Inl (St_error ''Return must be greater than growth rate'')"
  using ddm_gordon [of 4 9 5] ddm_gordon [of 0 0 0] by simp

subsection \<open>Residual income model\<close>

text \<open>
  Claim C8: for every RIM input with nonzero cost of equity the result holds the cost of
  equity \<open>riskFree + beta * (marketReturn - riskFree)\<close> and the intrinsic value
  \<open>bookValue + (netIncome - bookValue * costOfEquity / 100) / (costOfEquity / 100)\<close>; for
  book value 50, net income 8, risk-free rate 6.5, beta 1.0 and market return 12.0 the
  cost of equity is 12 and the intrinsic value is 66.67 to two decimal places.
\<close>

theorem rim_capm:
  "(c = rf + beta * (market_return - rf) \<and> c \<noteq> 0 \<longrightarrow>
      rim book_value net_income rf beta market_return =
        Inr \<lparr>cost_of_equity = c,
             intrinsic_value = book_value + (net_income - book_value * c / 100) / (c / 100)\<rparr>)
   \<and> (\<exists>res. rim 50 8 6.5 1 12 = Inr res \<and> cost_of_equity res = 12
          \<and> \<bar>intrinsic_value res - 66.67\<bar> < 0.005)"
proof -
  have "rim 50 8 6.5 1 12 = Inr \<lparr>cost_of_equity = 12, intrinsic_value = 200 / 3\<rparr>"
    by (simp add: rim_def Let_def truediv_def then_do_def)
  moreover have "\<bar>200 / 3 - 66.67\<bar> < (0.005 :: real)"
    by simp
  ultimately show ?thesis
    by (simp add: rim_ok)
qed

theorem rim_capm_witness:
  "(15 :: real) = 5 + 2 * (10 - 5) \<and> (15 :: real) \<noteq> 0
   \<and> rim 10 2 5 2 10 = Inr \<lparr>cost_of_equity = 15, intrinsic_value = 40 / 3\<rparr>"
  using rim_capm
      [where c = 15 and rf = 5 and beta = 2 and market_return = 10
         and book_value = 10 and net_income = 2]
  by simp

text \<open>
  Claim C10: for every RIM input with nonzero cost of equity the intrinsic value is the
  net income divided by \<open>costOfEquity / 100\<close>, whatever the book value: two inputs that
  differ only in the book value have the same intrinsic value.
\<close>

theorem rim_book_value_cancels:
  assumes "c = rf + beta * (market_return - rf)" and "c \<noteq> 0"
  shows "\<exists>res res'.
           rim book_value net_income rf beta market_return = Inr res
           \<and> rim book_value' net_income rf beta market_return = Inr res'
           \<and> intrinsic_value res = net_income / (c / 100)
           \<and> intrinsic_value res' = intrinsic_value res"
proof -
  have v: "b + (net_income - b * (c / 100)) / (c / 100) = net_income / (c / 100)" for b
    using assms(2) by (simp add: field_simps)
  have r: "rim b net_income rf beta market_return =
             Inr \<lparr>cost_of_equity = c, intrinsic_value = net_income / (c / 100)\<rparr>" for b
    using rim_ok [OF assms, of b net_income] by (simp only: v)
  show ?thesis
    by (simp add: r)
qed

theorem rim_book_value_cancels_witness:
  "(12 :: real) = 6.5 + 1 * (12 - 6.5) \<and> (12 :: real) \<noteq> 0
   \<and> (\<exists>res res'. rim 50 8 6.5 1 12 = Inr res \<and> rim 0 8 6.5 1 12 = Inr res'
         \<and> intrinsic_value res = 200 / 3 \<and> intrinsic_value res' = intrinsic_value res)"
  using rim_book_value_cancels
      [where c = 12 and rf = "6.5" and beta = 1 and market_return = 12
         and book_value = 50 and net_income = 8 and book_value' = 0]
  by simp

subsection \<open>Relative valuation\<close>

text \<open>
  Claim C9: for every relative-valuation input the run succeeds with the product of the
  industry P/E ratio and the EPS; with a ratio of 1 the result is the EPS itself.
\<close>

theorem relative_value_product:
  "relative_value industry_pe eps = Inr (industry_pe * eps)
   \<and> relative_value 1 X = Inr X"
  by (simp add: relative_value_def)

subsection \<open>Asset-based valuation\<close>

lemma nav_nonzero_shares:
  "shares_outstanding \<noteq> 0 \<Longrightarrow>
     nav total_assets total_liabilities shares_outstanding =
       Inr ((total_assets - total_liabilities) / shares_outstanding)"
  by (simp add: nav_def truediv_def)

text \<open>
  Claim C3 (the code departs from it). The claim: with shares outstanding at most 0 the
  asset-based run fails with InvalidShares and gives no net asset value. The asset-based
  button has no check of the shares, unlike the DCF button: with zero shares the division
  raises \<open>ZeroDivisionError\<close>, and with negative shares a net asset value is computed and
  shown. For assets 100 and liabilities 40, zero shares raise and minus ten shares give
  minus 6.
\<close>

theorem nav_unchecked_shares:
  "nav 100 40 0 = Inl ZeroDivisionError \<and> nav 100 40 (- 10) = Inr (- 6)"
  by (simp add: nav_def truediv_def)

subsection \<open>Exceptions\<close>

text \<open>
  Claim C4 (the code departs from it). The claim: no exception escapes and every failure
  is a reported error, in particular for a RIM input with cost of equity zero and for an
  asset-based input with zero shares. The RIM button and the asset-based button divide
  with no check before, and the DCF button checks nothing about \<open>1 + drp\<close>: risk-free rate
  6, beta minus 1 and market return 12 give cost of equity 0 and \<open>ZeroDivisionError\<close>, and
  so do zero shares in the asset-based model and a discount rate of minus 100 per cent in
  the DCF model.
\<close>

theorem unguarded_divisions_raise:
  "rim 50 8 6 (- 1) 12 = Inl ZeroDivisionError
   \<and> rim 50 8 0 1 0 = Inl ZeroDivisionError
   \<and> nav 100 40 0 = Inl ZeroDivisionError
   \<and> dcf total_discount_inputs = Inl ZeroDivisionError"
proof -
  have h1: "0 < os total_discount_inputs" by (simp add: total_discount_inputs_def)
  have h2: "tr total_discount_inputs < dr total_discount_inputs"
    by (simp add: total_discount_inputs_def)
  have h3: "dr total_discount_inputs = - 100" by (simp add: total_discount_inputs_def)
  show ?thesis
    by (simp add: rim_zero_cost nav_def truediv_zero dcf_total_discount [OF h1 h2 h3])
qed

end
